theory Spec2Isabelle
  imports Main
begin

section \<open>Data model\<close>

text \<open>
  The \<open>User\<close> entity as the authentication routes use it. Nullable columns are
  options; \<open>plexId\<close> is a JavaScript number, the reset link's expiration a point in
  time (milliseconds).
\<close>

record user =
  user_id :: nat
  email :: string
  username :: "string option"
  password :: "string option"
  permissions :: nat
  avatar :: string
  plexId :: "int option"
  plexToken :: "string option"
  plexUsername :: "string option"
  jellyfinUserId :: "string option"
  jellyfinUsername :: "string option"
  jellyfinAuthToken :: "string option"
  jellyfinDeviceId :: "string option"
  resetPasswordGuid :: "string option"
  recoveryLinkExpirationDate :: "nat option"

text \<open>The account that \<open>plextv.getUser()\<close> returns.\<close>

record plex_account =
  acc_id :: int
  acc_email :: string
  acc_username :: string
  acc_authToken :: string
  acc_thumb :: string

text \<open>An entry of \<open>plextv.getUsers()\<close> (\<open>MediaContainer.User[i].$\<close>), its id parsed.\<close>

record plex_shared_user =
  su_id :: int
  su_email :: "string option"
  su_username :: string
  su_thumb :: string

text \<open>The answer of \<open>jellyfinserver.login\<close>: \<open>account.User\<close> and \<open>account.AccessToken\<close>.\<close>

record jellyfin_user =
  Id :: string
  Name :: string
  PrimaryImageTag :: "string option"
  ServerId :: string

record jellyfin_account =
  User :: jellyfin_user
  AccessToken :: string

text \<open>\<open>getSettings()\<close>: the fields of \<open>settings.main\<close> and \<open>settings.jellyfin\<close> read here.\<close>

record main_settings =
  localLogin :: bool
  newPlexLogin :: bool
  defaultPermissions :: nat

record jellyfin_settings =
  hostname :: string
  externalHostname :: "string option"
  serverId :: string

record settings =
  main :: main_settings
  jellyfin :: jellyfin_settings

text \<open>
  What a request carries: \<open>req.user\<close> (the id of the session's user, set by the
  session middleware), the fields of \<open>req.body\<close> over all routes, and
  \<open>req.params.guid\<close>.
\<close>

record request =
  req_user :: "nat option"
  body_authToken :: "string option"
  body_username :: "string option"
  body_password :: "string option"
  body_hostname :: "string option"
  body_email :: "string option"
  params_guid :: string

text \<open>
  The mutable world of a request: the settings singleton, the rows of the user table
  in row order, and \<open>req.session.userId\<close>.
\<close>

record world =
  the_settings :: settings
  userRepository :: "user list"
  session_userId :: "nat option"

text \<open>
  The collaborators outside these files, taken as parameters: the Plex.tv client
  (constructed from a token), the Jellyfin client (host, device id, then the
  credentials; a failure is the thrown error's message), Gravatar, bcrypt, base64,
  and the constant \<open>Permission.ADMIN\<close>.
\<close>

record env =
  plextv_getUser :: "string \<Rightarrow> plex_account option"
  plextv_getUsers :: "string \<Rightarrow> plex_shared_user list option"
  checkUserAccess :: "string \<Rightarrow> int \<Rightarrow> bool"
  jellyfin_login :: "string \<Rightarrow> string \<Rightarrow> string \<Rightarrow> string option \<Rightarrow> string + jellyfin_account"
  gravatarUrl :: "string \<Rightarrow> string"
  bcrypt_hash :: "string \<Rightarrow> string"
  bcrypt_compare :: "string \<Rightarrow> string \<Rightarrow> bool"
  base64 :: "string \<Rightarrow> string"
  Permission_ADMIN :: nat

text \<open>A response: \<open>res.status(n).json(p)\<close>, or \<open>next({status, message})\<close>.\<close>

datatype payload = UserJson user | ErrorJson string | StatusOk

datatype response = Res nat payload | Next nat string

fun status_of :: "response \<Rightarrow> nat" where
  "status_of (Res n _) = n"
| "status_of (Next n _) = n"

fun message_of :: "response \<Rightarrow> string" where
  "message_of (Res _ (ErrorJson m)) = m"
| "message_of (Res _ _) = []"
| "message_of (Next _ m) = m"

fun user_of :: "response \<Rightarrow> user option" where
  "user_of (Res _ (UserJson u)) = Some u"
| "user_of _ = None"

section \<open>JavaScript values\<close>

text \<open>\<open>!s\<close> on an optional string: undefined and the empty string are falsy.\<close>

fun truthy :: "string option \<Rightarrow> bool" where
  "truthy None = False"
| "truthy (Some s) = (s \<noteq> [])"

text \<open>\<open>!n\<close> on an optional number: null and 0 are falsy.\<close>

fun truthy_num :: "int option \<Rightarrow> bool" where
  "truthy_num None = False"
| "truthy_num (Some n) = (n \<noteq> 0)"

text \<open>\<open>s ?? ''\<close>\<close>

fun or_empty :: "string option \<Rightarrow> string" where
  "or_empty None = []"
| "or_empty (Some s) = s"

text \<open>
  \<open>toLowerCase\<close>. A character is a code unit below 256 (Latin-1); of these,
  JavaScript lower-cases the letters A to Z and the letters U+00C0 to U+00DE other
  than the multiplication sign U+00D7, each to the code unit 32 above it.
\<close>

definition lower_char :: "char \<Rightarrow> char" where
  "lower_char c =
     (case map_of
        (zip (''ABCDEFGHIJKLMNOPQRSTUVWXYZ'' @
          [CHR 0xC0, CHR 0xC1, CHR 0xC2, CHR 0xC3, CHR 0xC4, CHR 0xC5, CHR 0xC6,
           CHR 0xC7, CHR 0xC8, CHR 0xC9, CHR 0xCA, CHR 0xCB, CHR 0xCC, CHR 0xCD,
           CHR 0xCE, CHR 0xCF, CHR 0xD0, CHR 0xD1, CHR 0xD2, CHR 0xD3, CHR 0xD4,
           CHR 0xD5, CHR 0xD6, CHR 0xD8, CHR 0xD9, CHR 0xDA, CHR 0xDB, CHR 0xDC,
           CHR 0xDD, CHR 0xDE])
             (''abcdefghijklmnopqrstuvwxyz'' @
          [CHR 0xE0, CHR 0xE1, CHR 0xE2, CHR 0xE3, CHR 0xE4, CHR 0xE5, CHR 0xE6,
           CHR 0xE7, CHR 0xE8, CHR 0xE9, CHR 0xEA, CHR 0xEB, CHR 0xEC, CHR 0xED,
           CHR 0xEE, CHR 0xEF, CHR 0xF0, CHR 0xF1, CHR 0xF2, CHR 0xF3, CHR 0xF4,
           CHR 0xF5, CHR 0xF6, CHR 0xF8, CHR 0xF9, CHR 0xFA, CHR 0xFB, CHR 0xFC,
           CHR 0xFD, CHR 0xFE])) c of
        None \<Rightarrow> c
      | Some l \<Rightarrow> l)"

definition toLowerCase :: "string \<Rightarrow> string" where
  "toLowerCase s = map lower_char s"

section \<open>The user repository\<close>

text \<open>
  \<open>getOne()\<close> and \<open>findOne\<close>: the first row that satisfies the condition, the rows
  taken in the order the table returns them.
\<close>

definition getOne :: "(user \<Rightarrow> bool) \<Rightarrow> user list \<Rightarrow> user option" where
  "getOne cond tbl = find cond tbl"

definition findOneBy_id :: "nat \<Rightarrow> user list \<Rightarrow> user option" where
  "findOneBy_id i tbl = getOne (\<lambda>u. user_id u = i) tbl"

text \<open>
  Modelled from the spec: the entity's constructor and the persistence of a row, which
  are not among these files. \<open>new User({...})\<close> leaves the fields it is not given
  empty; \<open>save\<close> appends a row without an id under the next id of the column (1 for
  the first user created), and a loaded row replaces the row of its id.
\<close>

definition new_User :: user where
  "new_User = \<lparr> user_id = 0, email = [], username = None, password = None,
     permissions = 0, avatar = [], plexId = None, plexToken = None, plexUsername = None,
     jellyfinUserId = None, jellyfinUsername = None, jellyfinAuthToken = None,
     jellyfinDeviceId = None, resetPasswordGuid = None,
     recoveryLinkExpirationDate = None \<rparr>"

definition next_id :: "user list \<Rightarrow> nat" where
  "next_id tbl = Suc (fold max (map user_id tbl) 0)"

definition insert_row :: "user \<Rightarrow> user list \<Rightarrow> user" where
  "insert_row u tbl = u\<lparr>user_id := next_id tbl\<rparr>"

definition save_new :: "user \<Rightarrow> user list \<Rightarrow> user list" where
  "save_new u tbl = tbl @ [insert_row u tbl]"

definition save :: "user \<Rightarrow> user list \<Rightarrow> user list" where
  "save u tbl = map (\<lambda>v. if user_id v = user_id u then u else v) tbl"

text \<open>
  Modelled from the spec: \<open>user.setPassword\<close> and \<open>user.passwordMatch\<close>, methods of
  the entity, which is not among these files: the password is stored hashed, the
  supplied one is compared with the stored hash, and a user without a stored password
  matches none.
\<close>

definition setPassword :: "env \<Rightarrow> string \<Rightarrow> user \<Rightarrow> user" where
  "setPassword e pw u = u\<lparr>password := Some (bcrypt_hash e pw)\<rparr>"

definition passwordMatch :: "env \<Rightarrow> user \<Rightarrow> string \<Rightarrow> bool" where
  "passwordMatch e u pw =
     (case password u of None \<Rightarrow> False | Some h \<Rightarrow> bcrypt_compare e pw h)"

section \<open>POST /reset-password/:guid\<close>

definition msg_password_length :: string where
  "msg_password_length = ''Password must be at least 8 characters long.''"

definition msg_invalid_link :: string where
  "msg_invalid_link = ''Invalid password reset link.''"

text \<open>\<open>now\<close> is \<open>new Date()\<close> at the time of the check.\<close>

definition reset_password_guid :: "env \<Rightarrow> nat \<Rightarrow> request \<Rightarrow> world \<Rightarrow> response \<times> world" where
  "reset_password_guid e now req w =
     (if \<not> truthy (body_password req) \<or> length (or_empty (body_password req)) < 8
      then (Next 500 msg_password_length, w)
      else
        (case getOne (\<lambda>u. resetPasswordGuid u = Some (params_guid req)) (userRepository w) of
           None \<Rightarrow> (Next 500 msg_invalid_link, w)
         | Some u \<Rightarrow>
             (case recoveryLinkExpirationDate u of
                None \<Rightarrow> (Next 500 msg_invalid_link, w)
              | Some expires \<Rightarrow>
                  if expires \<le> now then (Next 500 msg_invalid_link, w)
                  else
                    (Res 200 StatusOk,
                     w\<lparr>userRepository :=
                         save ((setPassword e (or_empty (body_password req)) u)
                                 \<lparr>recoveryLinkExpirationDate := None\<rparr>)
                           (userRepository w)\<rparr>))))"

text \<open>A run of consumption attempts with one guid, each a password and a clock.\<close>

fun reset_attempts :: "env \<Rightarrow> string \<Rightarrow> (string option \<times> nat) list \<Rightarrow> world \<Rightarrow> response list" where
  "reset_attempts e g [] w = []"
| "reset_attempts e g ((pw, now) # rest) w =
     (let (r, w') = reset_password_guid e now
                      \<lparr>req_user = None, body_authToken = None, body_username = None,
                        body_password = pw, body_hostname = None, body_email = None,
                        params_guid = g\<rparr> w
      in r # reset_attempts e g rest w')"

section \<open>POST /plex\<close>

definition msg_access_denied :: string where
  "msg_access_denied = ''Access denied.''"

definition msg_unable :: string where
  "msg_unable = ''Unable to authenticate.''"

text \<open>
  The lookup of the local user: the session's user when the request is logged in,
  otherwise one query whose condition is \<open>user.plexId = :id OR user.email = :email\<close>
  with the account's email in lower case.
\<close>

definition plex_match :: "plex_account \<Rightarrow> user \<Rightarrow> bool" where
  "plex_match account u =
     (plexId u = Some (acc_id account) \<or> email u = toLowerCase (acc_email account))"

definition plex_find_user :: "request \<Rightarrow> plex_account \<Rightarrow> user list \<Rightarrow> user option" where
  "plex_find_user req account tbl =
     (case req_user req of
        Some i \<Rightarrow> findOneBy_id i tbl
      | None \<Rightarrow> getOne (plex_match account) tbl)"

text \<open>The user built from the account, with the permissions the branch gives it.\<close>

definition plex_new_user :: "plex_account \<Rightarrow> nat \<Rightarrow> user" where
  "plex_new_user account perms =
     new_User\<lparr>email := acc_email account, plexUsername := Some (acc_username account),
       plexId := Some (acc_id account), plexToken := Some (acc_authToken account),
       permissions := perms, avatar := acc_thumb account\<rparr>"

text \<open>Binding the session and answering 200 with the user.\<close>

definition signed_in :: "user \<Rightarrow> user list \<Rightarrow> world \<Rightarrow> response \<times> world" where
  "signed_in u tbl w =
     (Res 200 (UserJson u), w\<lparr>userRepository := tbl, session_userId := Some (user_id u)\<rparr>)"

text \<open>
  The route. An exception inside its \<open>try\<close> (a failing \<open>getUser\<close>, a
  \<open>findOneOrFail\<close> without a row) ends in 500 \<open>Unable to authenticate.\<close>
\<close>

definition plex_route :: "env \<Rightarrow> request \<Rightarrow> world \<Rightarrow> response \<times> world" where
  "plex_route e req w =
     (if \<not> truthy (body_authToken req) then (Next 500 ''Authentication token required.'', w)
      else
        (case plextv_getUser e (or_empty (body_authToken req)) of
           None \<Rightarrow> (Next 500 msg_unable, w)
         | Some account \<Rightarrow>
             (let tbl = userRepository w;
                  user = plex_find_user req account tbl
              in
                if user = None \<and> length tbl = 0 then
                  signed_in (insert_row (plex_new_user account (Permission_ADMIN e)) tbl)
                    (save_new (plex_new_user account (Permission_ADMIN e)) tbl) w
                else
                  (case findOneBy_id 1 tbl of
                     None \<Rightarrow> (Next 500 msg_unable, w)
                   | Some mainUser \<Rightarrow>
                       if acc_id account = 0 then (Next 500 ''Something went wrong. Try again.'', w)
                       else if
                         Some (acc_id account) = plexId mainUser
                         \<or> (case user of None \<Rightarrow> False
                             | Some u \<Rightarrow> user_id u = 1 \<and> \<not> truthy_num (plexId u))
                         \<or> (acc_email account = email mainUser \<and> \<not> truthy_num (plexId mainUser))
                         \<or> checkUserAccess e (or_empty (plexToken mainUser)) (acc_id account)
                       then
                         (case user of
                            Some u \<Rightarrow>
                              (let u' = u\<lparr>plexToken := body_authToken req,
                                         plexId := Some (acc_id account),
                                         avatar := acc_thumb account,
                                         plexUsername := Some (acc_username account)\<rparr>
                               in signed_in u' (save u' tbl) w)
                          | None \<Rightarrow>
                              if \<not> newPlexLogin (main (the_settings w))
                              then (Next 403 msg_access_denied, w)
                              else
                                signed_in
                                  (insert_row (plex_new_user account
                                     (defaultPermissions (main (the_settings w)))) tbl)
                                  (save_new (plex_new_user account
                                     (defaultPermissions (main (the_settings w)))) tbl) w)
                       else (Next 403 msg_access_denied, w)))))"

section \<open>POST /jellyfin\<close>

definition msg_something_wrong :: string where
  "msg_something_wrong = ''Something went wrong.''"

text \<open>The \<open>catch\<close> of the route, on the thrown error's message.\<close>

definition jellyfin_catch :: "string \<Rightarrow> response" where
  "jellyfin_catch m =
     (if m = ''Unauthorized'' then Next 401 ''Unauthorized''
      else if m = ''add_email'' then Next 406 ''CREDENTIAL_ERROR_ADD_EMAIL''
      else Next 500 msg_something_wrong)"

text \<open>The host of the server, and the host avatars are addressed with.\<close>

definition connect_hostname :: "settings \<Rightarrow> request \<Rightarrow> string" where
  "connect_hostname s req =
     (if hostname (jellyfin s) \<noteq> [] then hostname (jellyfin s)
      else or_empty (body_hostname req))"

definition strip_slash :: "string \<Rightarrow> string" where
  "strip_slash h = (if h \<noteq> [] \<and> last h = CHR ''/'' then butlast h else h)"

definition jellyfinHost :: "settings \<Rightarrow> request \<Rightarrow> string" where
  "jellyfinHost s req =
     strip_slash (if truthy (externalHostname (jellyfin s))
                  then or_empty (externalHostname (jellyfin s))
                  else connect_hostname s req)"

definition jellyfin_avatar :: "string \<Rightarrow> jellyfin_account \<Rightarrow> string" where
  "jellyfin_avatar host account =
     (if truthy (PrimaryImageTag (User account))
      then host @ ''/Users/'' @ Id (User account) @ ''/Images/Primary/?tag=''
             @ or_empty (PrimaryImageTag (User account)) @ ''&quality=90''
      else ''/os_logo_square.png'')"

text \<open>
  The device id: the stored one of the user whose \<open>jellyfinUsername\<close> is the
  submitted name, else derived from that name.
\<close>

definition jellyfin_deviceId :: "env \<Rightarrow> string \<Rightarrow> user list \<Rightarrow> string" where
  "jellyfin_deviceId e uname tbl =
     (case getOne (\<lambda>u. jellyfinUsername u = Some uname) tbl of
        Some u \<Rightarrow> or_empty (jellyfinDeviceId u)
      | None \<Rightarrow> base64 e (''BOT_overseerr_'' @ uname))"

definition jellyfin_find_user :: "request \<Rightarrow> jellyfin_account \<Rightarrow> user list \<Rightarrow> user option" where
  "jellyfin_find_user req account tbl =
     (case req_user req of
        Some i \<Rightarrow> findOneBy_id i tbl
      | None \<Rightarrow> getOne (\<lambda>u. jellyfinUserId u = Some (Id (User account))) tbl)"

text \<open>The fields a matched user is refreshed with.\<close>

definition jellyfin_refresh :: "string \<Rightarrow> string \<Rightarrow> jellyfin_account \<Rightarrow> user \<Rightarrow> user" where
  "jellyfin_refresh host deviceId account u =
     (let u1 = u\<lparr>jellyfinAuthToken := Some (AccessToken account)\<rparr>;
          u2 = (if \<not> truthy (jellyfinUserId u1)
                then u1\<lparr>jellyfinUserId := Some (Id (User account))\<rparr> else u1);
          u3 = u2\<lparr>jellyfinDeviceId := Some deviceId,
                   avatar := jellyfin_avatar host account,
                   jellyfinUsername := Some (Name (User account))\<rparr>
      in if username u3 = Some (Name (User account)) then u3\<lparr>username := Some []\<rparr> else u3)"

text \<open>The settings written at the initial configuration.\<close>

definition jellyfin_configure :: "request \<Rightarrow> jellyfin_account \<Rightarrow> settings \<Rightarrow> settings" where
  "jellyfin_configure req account s =
     (if hostname (jellyfin s) = [] \<and> truthy (body_hostname req)
      then s\<lparr>jellyfin := (jellyfin s)\<lparr>hostname := or_empty (body_hostname req),
                                       serverId := ServerId (User account)\<rparr>\<rparr>
      else s)"

definition jellyfin_new_user :: "string \<Rightarrow> string \<Rightarrow> string \<Rightarrow> jellyfin_account \<Rightarrow> nat \<Rightarrow> user" where
  "jellyfin_new_user mail host deviceId account perms =
     new_User\<lparr>email := mail, jellyfinUsername := Some (Name (User account)),
       jellyfinUserId := Some (Id (User account)), jellyfinDeviceId := Some deviceId,
       jellyfinAuthToken := Some (AccessToken account), permissions := perms,
       avatar := jellyfin_avatar host account\<rparr>"

text \<open>
  The route. \<open>findOneOrFail\<close> for the main user throws on a table without a row of
  id 1, so the \<open>!mainUser\<close> branch below it is never taken and the request ends in the
  \<open>catch\<close>, as 500.
\<close>

definition jellyfin_route :: "env \<Rightarrow> request \<Rightarrow> world \<Rightarrow> response \<times> world" where
  "jellyfin_route e req w =
     (let s = the_settings w; tbl = userRepository w in
      if \<not> truthy (body_username req)
      then (Res 500 (ErrorJson ''You must provide an username''), w)
      else if hostname (jellyfin s) = [] \<and> \<not> truthy (body_hostname req)
      then (Res 500 (ErrorJson ''No hostname provided.''), w)
      else
        (case findOneBy_id 1 tbl of
           None \<Rightarrow> (jellyfin_catch ''EntityNotFoundError'', w)
         | Some mainUser \<Rightarrow>
             (let uname = or_empty (body_username req);
                  deviceId = jellyfin_deviceId e uname tbl;
                  host = jellyfinHost s req
              in
                case jellyfin_login e (connect_hostname s req) deviceId uname (body_password req) of
                  Inl m \<Rightarrow> (jellyfin_catch m, w)
                | Inr account \<Rightarrow>
                    (case jellyfin_find_user req account tbl of
                       Some u \<Rightarrow>
                         (let u' = jellyfin_refresh host deviceId account u in
                          signed_in u' (save u' tbl)
                            (w\<lparr>the_settings := jellyfin_configure req account s\<rparr>))
                     | None \<Rightarrow>
                         if \<not> newPlexLogin (main s) then (Next 403 msg_access_denied, w)
                         else if \<not> truthy (body_email req) then (jellyfin_catch ''add_email'', w)
                         else
                           (let n = jellyfin_new_user (or_empty (body_email req)) host deviceId
                                      account (defaultPermissions (main s))
                            in signed_in (insert_row n tbl) (save_new n tbl) w)))))"

section \<open>POST /local\<close>

text \<open>
  Modelled from the spec: \<open>isPlexUser\<close>, a getter of the entity, which is not among
  these files: a user is a Plex user iff \<open>plexId\<close> is non-null.
\<close>

definition isPlexUser :: "user \<Rightarrow> bool" where
  "isPlexUser u = (plexId u \<noteq> None)"

definition main_isPlexUser :: "user option \<Rightarrow> bool" where
  "main_isPlexUser m = (case m of None \<Rightarrow> False | Some mu \<Rightarrow> isPlexUser mu)"

definition main_token :: "user option \<Rightarrow> string" where
  "main_token m = (case m of None \<Rightarrow> [] | Some mu \<Rightarrow> or_empty (plexToken mu))"

text \<open>
  The silent enrichment of a user without a Plex link: the entry of the main
  account's shared users with the user's email, when it has access. A failing
  \<open>getUsers\<close> is swallowed. The result is the user and the table after it.
\<close>

definition local_enrich :: "env \<Rightarrow> user option \<Rightarrow> user \<Rightarrow> user list \<Rightarrow> user \<times> user list" where
  "local_enrich e mainUser u tbl =
     (if \<not> truthy_num (plexId u) \<and> main_isPlexUser mainUser then
        (case plextv_getUsers e (main_token mainUser) of
           None \<Rightarrow> (u, tbl)
         | Some shared \<Rightarrow>
             (case find (\<lambda>a. truthy (su_email a)
                            \<and> toLowerCase (or_empty (su_email a)) = toLowerCase (email u)) shared of
                None \<Rightarrow> (u, tbl)
              | Some a \<Rightarrow>
                  if checkUserAccess e (main_token mainUser) (su_id a) then
                    (let u' = u\<lparr>plexId := Some (su_id a), avatar := su_thumb a,
                               email := or_empty (su_email a),
                               plexUsername := Some (su_username a)\<rparr>
                     in (u', save u' tbl))
                  else (u, tbl)))
      else (u, tbl))"

text \<open>The part of the route after the user is resolved.\<close>

definition local_finish :: "env \<Rightarrow> user \<Rightarrow> user list \<Rightarrow> world \<Rightarrow> response \<times> world" where
  "local_finish e u tbl w =
     (let mainUser = findOneBy_id 1 tbl;
          (u', tbl') = local_enrich e mainUser u tbl
      in
        if main_isPlexUser mainUser \<and> truthy_num (plexId u')
           \<and> plexId u' \<noteq> (case mainUser of None \<Rightarrow> None | Some mu \<Rightarrow> plexId mu)
           \<and> \<not> checkUserAccess e (main_token mainUser) (case plexId u' of None \<Rightarrow> 0 | Some n \<Rightarrow> n)
        then (Next 403 msg_access_denied, w\<lparr>userRepository := tbl'\<rparr>)
        else signed_in u' tbl' w)"

definition local_route :: "env \<Rightarrow> request \<Rightarrow> world \<Rightarrow> response \<times> world" where
  "local_route e req w =
     (if \<not> localLogin (main (the_settings w))
      then (Res 500 (ErrorJson ''Password sign-in is disabled.''), w)
      else if \<not> truthy (body_email req) \<or> \<not> truthy (body_password req)
      then (Res 500 (ErrorJson ''You must provide both an email address and a password.''), w)
      else
        (let tbl = userRepository w;
             mail = or_empty (body_email req);
             pw = or_empty (body_password req)
         in
           case getOne (\<lambda>u. email u = toLowerCase mail) tbl of
             None \<Rightarrow>
               if length tbl = 0 then
                 (let n = setPassword e pw
                            (new_User\<lparr>email := mail, permissions := Permission_ADMIN e,
                               avatar := gravatarUrl e mail\<rparr>)
                  in local_finish e (insert_row n tbl) (save_new n tbl) w)
               else (Next 403 msg_access_denied, w)
           | Some u \<Rightarrow>
               if \<not> passwordMatch e u pw then (Next 403 msg_access_denied, w)
               else local_finish e u tbl w))"

section \<open>The claims' vocabulary\<close>

text \<open>
  The Plex rule in the words of the specification: the account's provider id equals
  the administrator's, or the matched local user is the administrator's row (id 1)
  and has no Plex link, or the account's email equals the administrator's email
  while the administrator has no Plex link, or the administrator's client reports
  that the account has access.
\<close>

definition spec_plex_rule :: "env \<Rightarrow> plex_account \<Rightarrow> user option \<Rightarrow> user \<Rightarrow> bool" where
  "spec_plex_rule e account user mainUser =
     (plexId mainUser = Some (acc_id account)
      \<or> (user \<noteq> None \<and> user_id (the user) = 1 \<and> \<not> truthy_num (plexId (the user)))
      \<or> (acc_email account = email mainUser \<and> \<not> truthy_num (plexId mainUser))
      \<or> checkUserAccess e (or_empty (plexToken mainUser)) (acc_id account))"

text \<open>
  A Plex login that reaches the access check: a token is given, Plex.tv answers it
  with an account, the request is not the bootstrap of an empty table, the
  administrator's row exists, and the account has an id.
\<close>

definition plex_reaches_policy :: "env \<Rightarrow> request \<Rightarrow> world \<Rightarrow> plex_account \<Rightarrow> user \<Rightarrow> bool" where
  "plex_reaches_policy e req w account mainUser =
     (truthy (body_authToken req)
      \<and> plextv_getUser e (or_empty (body_authToken req)) = Some account
      \<and> \<not> (plex_find_user req account (userRepository w) = None \<and> userRepository w = [])
      \<and> findOneBy_id 1 (userRepository w) = Some mainUser
      \<and> acc_id account \<noteq> 0)"

text \<open>
  A Jellyfin login whose provider authentication succeeds: a user name is given, a
  host is known, the administrator's row exists, and the server answers the
  credentials with an account.
\<close>

definition jellyfin_reaches_login :: "env \<Rightarrow> request \<Rightarrow> world \<Rightarrow> jellyfin_account \<Rightarrow> bool" where
  "jellyfin_reaches_login e req w account =
     (truthy (body_username req)
      \<and> (hostname (jellyfin (the_settings w)) \<noteq> [] \<or> truthy (body_hostname req))
      \<and> findOneBy_id 1 (userRepository w) \<noteq> None
      \<and> jellyfin_login e (connect_hostname (the_settings w) req)
           (jellyfin_deviceId e (or_empty (body_username req)) (userRepository w))
           (or_empty (body_username req)) (body_password req) = Inr account)"

text \<open>A guid is consumed when the row it selects has no expiration date.\<close>

definition consumed :: "string \<Rightarrow> world \<Rightarrow> bool" where
  "consumed g w =
     (case getOne (\<lambda>u. resetPasswordGuid u = Some g) (userRepository w) of
        None \<Rightarrow> False
      | Some u \<Rightarrow> recoveryLinkExpirationDate u = None)"

section \<open>Concrete inputs\<close>

text \<open>Collaborators that refuse everything, and a hash that can be read.\<close>

definition env0 :: env where
  "env0 = \<lparr> plextv_getUser = (\<lambda>t. None), plextv_getUsers = (\<lambda>t. None),
     checkUserAccess = (\<lambda>t i. False), jellyfin_login = (\<lambda>h d u p. Inl ''Unauthorized''),
     gravatarUrl = (\<lambda>m. ''/avatar''), bcrypt_hash = (\<lambda>p. ''#'' @ p),
     bcrypt_compare = (\<lambda>p h. h = ''#'' @ p), base64 = (\<lambda>s. s), Permission_ADMIN = 2 \<rparr>"

definition settings0 :: settings where
  "settings0 = \<lparr> main = \<lparr> localLogin = True, newPlexLogin = True, defaultPermissions = 32 \<rparr>,
     jellyfin = \<lparr> hostname = ''http://media.local'', externalHostname = None,
                  serverId = ''srv'' \<rparr> \<rparr>"

definition req0 :: request where
  "req0 = \<lparr> req_user = None, body_authToken = None, body_username = None,
     body_password = None, body_hostname = None, body_email = None, params_guid = [] \<rparr>"

text \<open>The administrator, with a pending reset link that expires at 100.\<close>

definition admin0 :: user where
  "admin0 = new_User\<lparr>user_id := 1, email := ''admin@x.com'', password := Some ''#adminpass'',
     permissions := 2, resetPasswordGuid := Some ''g1'',
     recoveryLinkExpirationDate := Some 100\<rparr>"

definition world0 :: world where
  "world0 = \<lparr> the_settings = settings0, userRepository = [admin0], session_userId = None \<rparr>"

definition world_empty :: world where
  "world_empty = \<lparr> the_settings = settings0, userRepository = [], session_userId = None \<rparr>"

text \<open>A Jellyfin account without a picture, and a Plex account.\<close>

definition jf_account0 :: jellyfin_account where
  "jf_account0 = \<lparr> User = \<lparr> Id = ''abc'', Name = ''bob'', PrimaryImageTag = None,
                             ServerId = ''srv-1'' \<rparr>, AccessToken = ''tok'' \<rparr>"

definition plex_account0 :: plex_account where
  "plex_account0 = \<lparr> acc_id = 42, acc_email = ''A@x.com'', acc_username = ''alice'',
      acc_authToken = ''T1'', acc_thumb = ''/thumb'' \<rparr>"

text \<open>
  Providers that know the token \<open>T1\<close> and the credentials of \<open>bob\<close>; in \<open>env2\<close>
  the administrator's Plex client also reports access for the account 42.
\<close>

definition env1 :: env where
  "env1 = env0\<lparr> plextv_getUser := (\<lambda>t. if t = ''T1'' then Some plex_account0 else None),
                jellyfin_login := (\<lambda>h d u p. if u = ''bob'' \<and> p = Some ''pw'' then Inr jf_account0
                                              else Inl ''Unauthorized'') \<rparr>"

definition env2 :: env where
  "env2 = env1\<lparr> checkUserAccess := (\<lambda>t i. i = 42) \<rparr>"

text \<open>The same world with new sign-ins closed, and with no Jellyfin host configured.\<close>

definition world_closed :: world where
  "world_closed = world0\<lparr>the_settings := settings0\<lparr>main := (main settings0)\<lparr>newPlexLogin := False\<rparr>\<rparr>\<rparr>"

definition world_unconfigured :: world where
  "world_unconfigured = world0\<lparr>the_settings := settings0\<lparr>jellyfin := (jellyfin settings0)\<lparr>hostname := []\<rparr>\<rparr>\<rparr>"

text \<open>An administrator without a Plex link and a second user linked to the account 42.\<close>

definition userA :: user where
  "userA = new_User\<lparr>user_id := 1, email := ''a@x.com'', permissions := 2\<rparr>"

definition userB :: user where
  "userB = new_User\<lparr>user_id := 2, email := ''b@x.com'', permissions := 32, plexId := Some 42\<rparr>"

text \<open>Requests.\<close>

definition req_plex :: request where
  "req_plex = req0\<lparr>body_authToken := Some ''T1''\<rparr>"

definition req_bob :: request where
  "req_bob = req0\<lparr>body_username := Some ''bob'', body_password := Some ''pw''\<rparr>"

definition req_first :: request where
  "req_first = req0\<lparr>body_authToken := Some ''T1'', body_email := Some ''a@x.com'',
                     body_password := Some ''secret12''\<rparr>"

definition req_setup :: request where
  "req_setup = req_bob\<lparr>body_hostname := Some ''http://media.local''\<rparr>"

text \<open>
  A user whose email starts with a small e acute, a Plex account whose email starts
  with the capital, and a table with that user.
\<close>

definition userC :: user where
  "userC = new_User\<lparr>user_id := 3, email := CHR 0xE9 # ''@x.com'',
     password := Some ''#secret12'', permissions := 32\<rparr>"

definition plex_account1 :: plex_account where
  "plex_account1 = \<lparr> acc_id = 77, acc_email = CHR 0xC9 # ''@X.com'', acc_username = ''eve'',
      acc_authToken = ''T2'', acc_thumb = ''/eve'' \<rparr>"

definition world_latin1 :: world where
  "world_latin1 = \<lparr> the_settings = settings0, userRepository = [admin0, userC],
     session_userId = None \<rparr>"

text \<open>
  A Jellyfin account with a picture, a server that knows its credentials, the request
  that submits them, and a world whose external host ends in a slash.
\<close>

definition jf_account1 :: jellyfin_account where
  "jf_account1 = \<lparr> User = \<lparr> Id = ''xyz'', Name = ''amy'', PrimaryImageTag = Some ''tag1'',
                             ServerId = ''srv-1'' \<rparr>, AccessToken = ''tok2'' \<rparr>"

definition env_amy :: env where
  "env_amy = env0\<lparr> jellyfin_login :=
      (\<lambda>h d u p. if u = ''amy'' \<and> p = Some ''pw'' then Inr jf_account1
                 else Inl ''Unauthorized'') \<rparr>"

definition req_amy :: request where
  "req_amy = req0\<lparr>body_username := Some ''amy'', body_password := Some ''pw'',
                   body_email := Some ''amy@x.com''\<rparr>"

definition world_external :: world where
  "world_external = world0\<lparr>the_settings := settings0\<lparr>jellyfin := (jellyfin settings0)
      \<lparr>externalHostname := Some ''https://jf.example.org/''\<rparr>\<rparr>\<rparr>"

lemmas lookup_defs =
  getOne_def findOneBy_id_def plex_find_user_def plex_match_def jellyfin_find_user_def
  toLowerCase_def lower_char_def jellyfin_deviceId_def connect_hostname_def

section \<open>Lemmas on the repository\<close>

lemma find_holds: "find P xs = Some x \<Longrightarrow> P x"
  by (induction xs) (auto split: if_splits)

lemma find_save:
  "find P tbl = Some u \<Longrightarrow> P u' \<Longrightarrow> user_id u' = user_id u \<Longrightarrow> find P (save u' tbl) = Some u'"
  by (induction tbl) (auto simp: save_def split: if_splits)

lemma find_append_first:
  "\<forall>v\<in>set pre. \<not> P v \<Longrightarrow> P u \<Longrightarrow> find P (pre @ u # post) = Some u"
  by (induction pre) auto

lemma find_split:
  "find P tbl = Some u \<Longrightarrow> \<exists>pre post. tbl = pre @ u # post \<and> P u \<and> (\<forall>v\<in>set pre. \<not> P v)"
proof (induction tbl)
  case Nil
  then show ?case by simp
next
  case (Cons x xs)
  show ?case
  proof (cases "P x")
    case True
    with Cons.prems have "x = u" by simp
    with True have "x # xs = [] @ u # xs \<and> P u \<and> (\<forall>v\<in>set []. \<not> P v)" by simp
    then show ?thesis by blast
  next
    case False
    with Cons.prems have "find P xs = Some u" by simp
    then obtain pre post where "xs = pre @ u # post" "P u" "\<forall>v\<in>set pre. \<not> P v"
      using Cons.IH by blast
    with False have "x # xs = (x # pre) @ u # post \<and> P u \<and> (\<forall>v\<in>set (x # pre). \<not> P v)"
      by simp
    then show ?thesis by blast
  qed
qed

lemma find_id_save:
  "find (\<lambda>v. user_id v = i) tbl \<noteq> None \<Longrightarrow> find (\<lambda>v. user_id v = i) (save u tbl) \<noteq> None"
  by (induction tbl) (auto simp: save_def)

lemma find_id_append:
  "find P tbl \<noteq> None \<Longrightarrow> find P (tbl @ [x]) \<noteq> None"
  by (induction tbl) auto

lemma find_None_append:
  "find P tbl = None \<Longrightarrow> P x \<Longrightarrow> find P (tbl @ [x]) = Some x"
  by (induction tbl) (auto split: if_splits)

lemma find_member_id:
  "find Q tbl = Some u \<Longrightarrow> \<exists>x. find (\<lambda>v. user_id v = user_id u) tbl = Some x"
  by (induction tbl) (auto split: if_splits)

lemma next_id_Nil: "next_id [] = 1"
  by (simp add: next_id_def)

section \<open>Password reset\<close>

lemma reset_fail_unchanged:
  "getOne (\<lambda>u. resetPasswordGuid u = Some (params_guid req)) (userRepository w) = Some u \<Longrightarrow>
   recoveryLinkExpirationDate u = None \<Longrightarrow>
   reset_password_guid e now req w =
     (if \<not> truthy (body_password req) \<or> length (or_empty (body_password req)) < 8
      then Next 500 msg_password_length else Next 500 msg_invalid_link, w)"
  by (simp add: reset_password_guid_def)

lemma reset_success_consumed:
  assumes "reset_password_guid e now req w = (Res 200 StatusOk, w')"
  shows "consumed (params_guid req) w'"
proof -
  let ?P = "\<lambda>u. resetPasswordGuid u = Some (params_guid req)"
  let ?pw = "or_empty (body_password req)"
  from assms obtain u where
    u: "find ?P (userRepository w) = Some u" and
    w': "w' = w\<lparr>userRepository :=
            save ((setPassword e ?pw u)\<lparr>recoveryLinkExpirationDate := None\<rparr>) (userRepository w)\<rparr>"
    by (auto simp: reset_password_guid_def getOne_def split: if_splits option.splits)
  let ?u' = "(setPassword e ?pw u)\<lparr>recoveryLinkExpirationDate := None\<rparr>"
  have "?P u" using u by (rule find_holds)
  then have "?P ?u'" by (simp add: setPassword_def)
  moreover have "user_id ?u' = user_id u" by (simp add: setPassword_def)
  ultimately have "find ?P (save ?u' (userRepository w)) = Some ?u'"
    using u by (intro find_save)
  then show ?thesis by (simp add: consumed_def getOne_def w')
qed

lemma attempts_consumed:
  "consumed g w \<Longrightarrow> reset_attempts e g attempts w =
     map (\<lambda>(pw, now). if \<not> truthy pw \<or> length (or_empty pw) < 8
            then Next 500 msg_password_length else Next 500 msg_invalid_link) attempts"
proof (induction attempts)
  case Nil
  show ?case by simp
next
  case (Cons a attempts)
  obtain pw now where a: "a = (pw, now)" by (cases a)
  from Cons.prems obtain u where
    u: "getOne (\<lambda>u. resetPasswordGuid u = Some g) (userRepository w) = Some u"
       "recoveryLinkExpirationDate u = None"
    by (auto simp: consumed_def split: option.splits)
  show ?case using Cons u a
    by (simp add: reset_fail_unchanged)
qed

text \<open>
  C9, as the code has it: a consumption call whose new password is missing or shorter
  than 8 characters is answered with status 500 (not 400) and the message on the
  password's length, whatever the guid, the clock and the user table are, and the
  table is left as it was.
\<close>

theorem short_password_rejected:
  "\<not> truthy (body_password req) \<or> length (or_empty (body_password req)) < 8 \<Longrightarrow>
   reset_password_guid e now req w = (Next 500 msg_password_length, w)"
  by (simp add: reset_password_guid_def)

theorem short_password_rejected_witness:
  "length (or_empty (Some ''short'')) < 8 \<and>
   reset_password_guid env0 50 (req0\<lparr>body_password := Some ''short'', params_guid := ''g1''\<rparr>) world0
     = (Next 500 msg_password_length, world0)"
  using short_password_rejected
    [of "req0\<lparr>body_password := Some ''short'', params_guid := ''g1''\<rparr>" env0 50 world0]
  by (simp add: req0_def)

text \<open>
  C9 as stated fails: for the pending link \<open>g1\<close> and the password \<open>short\<close> the status
  is 500, not 400.
\<close>

theorem short_password_status_counterexample:
  "status_of (fst (reset_password_guid env0 50
       (req0\<lparr>body_password := Some ''short'', params_guid := ''g1''\<rparr>) world0)) = 500 \<and>
   status_of (fst (reset_password_guid env0 50
       (req0\<lparr>body_password := Some ''short'', params_guid := ''g1''\<rparr>) world0)) \<noteq> 400"
  by (simp add: reset_password_guid_def req0_def)

text \<open>
  C10: after a successful consumption for a guid, every later consumption attempt
  with that guid fails with status 500: with the invalid-link error when its password
  passes the length check, which is made first, and with the length error otherwise.
  No attempt succeeds again.
\<close>

theorem consumed_guid_never_succeeds:
  assumes "reset_password_guid e now req w = (Res 200 StatusOk, w')"
  shows "reset_attempts e (params_guid req) attempts w' =
     map (\<lambda>(pw, t). if \<not> truthy pw \<or> length (or_empty pw) < 8
            then Next 500 msg_password_length else Next 500 msg_invalid_link) attempts"
  using assms by (intro attempts_consumed reset_success_consumed)

theorem consumed_guid_never_succeeds_witness:
  "fst (reset_password_guid env0 50
       (req0\<lparr>body_password := Some ''newpassword'', params_guid := ''g1''\<rparr>) world0)
     = Res 200 StatusOk \<and>
   reset_attempts env0 ''g1'' [(Some ''otherpassword'', 60), (Some ''short'', 70)]
       (snd (reset_password_guid env0 50
          (req0\<lparr>body_password := Some ''newpassword'', params_guid := ''g1''\<rparr>) world0))
     = [Next 500 msg_invalid_link, Next 500 msg_password_length]"
proof -
  let ?req = "req0\<lparr>body_password := Some ''newpassword'', params_guid := ''g1''\<rparr>"
  have ok: "reset_password_guid env0 50 ?req world0
      = (Res 200 StatusOk, snd (reset_password_guid env0 50 ?req world0))"
    by (simp add: reset_password_guid_def req0_def world0_def admin0_def getOne_def
        new_User_def)
  have g: "params_guid ?req = ''g1''" by simp
  have first: "fst (reset_password_guid env0 50 ?req world0) = Res 200 StatusOk"
    by (metis ok fst_conv)
  have later: "reset_attempts env0 ''g1'' [(Some ''otherpassword'', 60), (Some ''short'', 70)]
       (snd (reset_password_guid env0 50 ?req world0))
     = [Next 500 msg_invalid_link, Next 500 msg_password_length]"
    using consumed_guid_never_succeeds
      [OF ok, of "[(Some ''otherpassword'', 60), (Some ''short'', 70)]", unfolded g]
    by (simp del: reset_attempts.simps)
  show ?thesis using first later by (rule conjI)
qed

section \<open>Local sign-in\<close>

lemma toLowerCase_latin1:
  "toLowerCase (CHR 0xC9 # ''@X.com'') = CHR 0xE9 # ''@x.com''"
  by (simp add: toLowerCase_def lower_char_def)

lemma local_route_latin1_email:
  "status_of (fst (local_route env0
      (req0\<lparr>body_email := Some (CHR 0xC9 # ''@X.com''), body_password := Some ''secret12''\<rparr>)
      world_latin1)) = 200"
  by (simp add: local_route_def local_finish_def local_enrich_def signed_in_def Let_def
      passwordMatch_def main_isPlexUser_def isPlexUser_def world_latin1_def settings0_def
      admin0_def userC_def new_User_def env0_def req0_def lookup_defs)

text \<open>
  C4: a local login on a non-empty table for which the lookup by the lower-cased
  email finds no user, or finds one whose stored password does not match the
  supplied one, is never answered with 200; when password sign-in is enabled and
  both fields are supplied, the answer is 403 \<open>Access denied.\<close> and nothing is
  changed.
\<close>

theorem local_bad_credentials:
  assumes "userRepository w \<noteq> []"
      and "case getOne (\<lambda>u. email u = toLowerCase (or_empty (body_email req))) (userRepository w) of
             None \<Rightarrow> True
           | Some u \<Rightarrow> \<not> passwordMatch e u (or_empty (body_password req))"
  shows "status_of (fst (local_route e req w)) \<noteq> 200
       \<and> (localLogin (main (the_settings w)) \<and> truthy (body_email req) \<and> truthy (body_password req)
            \<longrightarrow> local_route e req w = (Next 403 msg_access_denied, w))"
  using assms unfolding local_route_def Let_def
  by (auto split: option.splits)

theorem local_bad_credentials_witness:
  "userRepository world0 \<noteq> []
   \<and> getOne (\<lambda>u. email u = toLowerCase ''Admin@x.com'') (userRepository world0) = Some admin0
   \<and> \<not> passwordMatch env0 admin0 ''wrongpass''
   \<and> local_route env0 (req0\<lparr>body_email := Some ''Admin@x.com'', body_password := Some ''wrongpass''\<rparr>) world0
       = (Next 403 msg_access_denied, world0)"
proof -
  let ?req = "req0\<lparr>body_email := Some ''Admin@x.com'', body_password := Some ''wrongpass''\<rparr>"
  have t: "userRepository world0 \<noteq> []"
    by (simp add: env0_def req0_def world0_def settings0_def admin0_def new_User_def)
  have g: "getOne (\<lambda>u. email u = toLowerCase ''Admin@x.com'') (userRepository world0) = Some admin0"
    by (simp add: env0_def req0_def world0_def settings0_def admin0_def new_User_def lookup_defs)
  have m: "\<not> passwordMatch env0 admin0 ''wrongpass''"
    by (simp add: passwordMatch_def env0_def req0_def world0_def settings0_def admin0_def
        new_User_def)
  have h: "case getOne (\<lambda>u. email u = toLowerCase (or_empty (body_email ?req))) (userRepository world0) of
             None \<Rightarrow> True
           | Some u \<Rightarrow> \<not> passwordMatch env0 u (or_empty (body_password ?req))"
    using g m by (simp add: req0_def)
  have gates: "localLogin (main (the_settings world0)) \<and> truthy (body_email ?req) \<and> truthy (body_password ?req)"
    by (simp add: env0_def req0_def world0_def settings0_def admin0_def new_User_def)
  show ?thesis
    using local_bad_credentials[OF t h] gates t g m by blast
qed

section \<open>Plex sign-in\<close>

lemma plex_route_policy:
  assumes "plex_reaches_policy e req w account mainUser"
  shows "plex_route e req w =
     (let tbl = userRepository w; user = plex_find_user req account tbl in
      if spec_plex_rule e account user mainUser then
        (case user of
           Some u \<Rightarrow>
             (let u' = u\<lparr>plexToken := body_authToken req, plexId := Some (acc_id account),
                        avatar := acc_thumb account, plexUsername := Some (acc_username account)\<rparr>
              in signed_in u' (save u' tbl) w)
         | None \<Rightarrow>
             if \<not> newPlexLogin (main (the_settings w)) then (Next 403 msg_access_denied, w)
             else signed_in
                    (insert_row (plex_new_user account (defaultPermissions (main (the_settings w)))) tbl)
                    (save_new (plex_new_user account (defaultPermissions (main (the_settings w)))) tbl) w)
      else (Next 403 msg_access_denied, w))"
proof -
  have rule: "spec_plex_rule e account user mainUser =
      (Some (acc_id account) = plexId mainUser
       \<or> (case user of None \<Rightarrow> False | Some u \<Rightarrow> user_id u = 1 \<and> \<not> truthy_num (plexId u))
       \<or> (acc_email account = email mainUser \<and> \<not> truthy_num (plexId mainUser))
       \<or> checkUserAccess e (or_empty (plexToken mainUser)) (acc_id account))" for user
    by (cases user) (auto simp: spec_plex_rule_def)
  show ?thesis
    using assms unfolding plex_reaches_policy_def plex_route_def Let_def rule
    by (auto split: option.splits)
qed

lemma plex_changes_only_on_200:
  "snd (plex_route e req w) = w \<or> status_of (fst (plex_route e req w)) = 200"
  by (simp add: plex_route_def Let_def signed_in_def split: option.split)

text \<open>
  C3, as the code has it: for a Plex login that is not the bootstrap of an empty
  table, the account passes the access rule iff one of the four conditions holds.
  When none holds the answer is 403 \<open>Access denied.\<close> and nothing is changed. When
  one holds, the login succeeds with 200 if a local user was matched or new sign-ins
  are enabled; an unmatched account while new sign-ins are disabled is refused with
  403 \<open>Access denied.\<close> all the same. So the login succeeds iff a condition holds
  and a local user was matched or new sign-ins are enabled.
\<close>

theorem plex_access_policy:
  assumes "plex_reaches_policy e req w account mainUser"
  shows "(\<not> spec_plex_rule e account (plex_find_user req account (userRepository w)) mainUser
            \<longrightarrow> plex_route e req w = (Next 403 msg_access_denied, w))
       \<and> (spec_plex_rule e account (plex_find_user req account (userRepository w)) mainUser
            \<and> (plex_find_user req account (userRepository w) \<noteq> None
                \<or> newPlexLogin (main (the_settings w)))
            \<longrightarrow> status_of (fst (plex_route e req w)) = 200)
       \<and> (spec_plex_rule e account (plex_find_user req account (userRepository w)) mainUser
            \<and> plex_find_user req account (userRepository w) = None
            \<and> \<not> newPlexLogin (main (the_settings w))
            \<longrightarrow> plex_route e req w = (Next 403 msg_access_denied, w))
       \<and> (status_of (fst (plex_route e req w)) = 200 \<longleftrightarrow>
            spec_plex_rule e account (plex_find_user req account (userRepository w)) mainUser
            \<and> (plex_find_user req account (userRepository w) \<noteq> None
                \<or> newPlexLogin (main (the_settings w))))"
  by (auto simp: plex_route_policy[OF assms] Let_def signed_in_def split: option.splits)

theorem plex_access_policy_witness:
  "plex_reaches_policy env2 req_plex world0 plex_account0 admin0
   \<and> spec_plex_rule env2 plex_account0 (plex_find_user req_plex plex_account0 (userRepository world0)) admin0
   \<and> newPlexLogin (main (the_settings world0))
   \<and> status_of (fst (plex_route env2 req_plex world0)) = 200
   \<and> plex_reaches_policy env1 req_plex world0 plex_account0 admin0
   \<and> \<not> spec_plex_rule env1 plex_account0 (plex_find_user req_plex plex_account0 (userRepository world0)) admin0
   \<and> plex_route env1 req_plex world0 = (Next 403 msg_access_denied, world0)"
proof -
  have p2: "plex_reaches_policy env2 req_plex world0 plex_account0 admin0"
    by (simp add: plex_reaches_policy_def env2_def env1_def env0_def plex_account0_def
        jf_account0_def req_plex_def req0_def world0_def settings0_def admin0_def new_User_def
        lookup_defs)
  have r2: "spec_plex_rule env2 plex_account0
      (plex_find_user req_plex plex_account0 (userRepository world0)) admin0"
    by (simp add: spec_plex_rule_def env2_def env1_def env0_def plex_account0_def
        jf_account0_def req_plex_def req0_def world0_def settings0_def admin0_def new_User_def
        lookup_defs)
  have n2: "newPlexLogin (main (the_settings world0))"
    by (simp add: env2_def env1_def env0_def plex_account0_def jf_account0_def req_plex_def
        req0_def world0_def settings0_def admin0_def new_User_def)
  have p1: "plex_reaches_policy env1 req_plex world0 plex_account0 admin0"
    by (simp add: plex_reaches_policy_def env2_def env1_def env0_def plex_account0_def
        jf_account0_def req_plex_def req0_def world0_def settings0_def admin0_def new_User_def
        lookup_defs)
  have r1: "\<not> spec_plex_rule env1 plex_account0
      (plex_find_user req_plex plex_account0 (userRepository world0)) admin0"
    by (simp add: spec_plex_rule_def env2_def env1_def env0_def plex_account0_def
        jf_account0_def req_plex_def req0_def world0_def settings0_def admin0_def new_User_def
        lookup_defs)
  show ?thesis
    using plex_access_policy[OF p2] plex_access_policy[OF p1] p2 r2 n2 p1 r1 by blast
qed

text \<open>
  C3 as stated fails: the administrator's client reports access for the account 42,
  so a condition of the rule holds, yet the account matches no local user and new
  sign-ins are disabled, and the answer is 403 \<open>Access denied.\<close>
\<close>

theorem plex_permitted_unmatched_counterexample:
  "plex_reaches_policy env2 req_plex world_closed plex_account0 admin0
   \<and> checkUserAccess env2 (or_empty (plexToken admin0)) (acc_id plex_account0)
   \<and> spec_plex_rule env2 plex_account0
        (plex_find_user req_plex plex_account0 (userRepository world_closed)) admin0
   \<and> plex_route env2 req_plex world_closed = (Next 403 msg_access_denied, world_closed)"
  by (simp add: plex_reaches_policy_def spec_plex_rule_def plex_route_def Let_def env2_def
      env1_def env0_def plex_account0_def jf_account0_def req_plex_def req0_def
      world_closed_def world0_def settings0_def admin0_def new_User_def lookup_defs)

text \<open>
  C7, as the code has it: without a session, the local user is the first row of the
  table whose Plex id equals the account's id or whose email equals the account's
  email in lower case, one condition with no order between its two parts: every row
  before the resolved one has another Plex id and another email. No row is resolved
  iff every row has another Plex id and another email.
\<close>

theorem plex_lookup_first_row:
  assumes "req_user req = None"
  shows "(plex_find_user req account tbl = None \<longleftrightarrow>
            (\<forall>v\<in>set tbl. plexId v \<noteq> Some (acc_id account)
                          \<and> email v \<noteq> toLowerCase (acc_email account)))
       \<and> (plex_find_user req account tbl = Some u \<longleftrightarrow>
            (\<exists>pre post. tbl = pre @ u # post
               \<and> (plexId u = Some (acc_id account) \<or> email u = toLowerCase (acc_email account))
               \<and> (\<forall>v\<in>set pre. plexId v \<noteq> Some (acc_id account)
                                \<and> email v \<noteq> toLowerCase (acc_email account))))"
proof -
  let ?P = "\<lambda>v. plexId v = Some (acc_id account) \<or> email v = toLowerCase (acc_email account)"
  have cond: "plex_match account = ?P"
    by (rule ext) (simp add: plex_match_def)
  have "find ?P tbl = Some u \<longleftrightarrow>
          (\<exists>pre post. tbl = pre @ u # post \<and> ?P u \<and> (\<forall>v\<in>set pre. \<not> ?P v))"
    using find_split[of ?P tbl u] find_append_first[of _ ?P u]
    by blast
  then show ?thesis using assms
    by (auto simp: plex_find_user_def getOne_def find_None_iff cond)
qed

theorem plex_lookup_first_row_witness:
  "req_user req_plex = None
   \<and> toLowerCase (acc_email plex_account1) = CHR 0xE9 # ''@x.com''
   \<and> plexId admin0 \<noteq> Some (acc_id plex_account1)
   \<and> email admin0 \<noteq> toLowerCase (acc_email plex_account1)
   \<and> plexId userC \<noteq> Some (acc_id plex_account1)
   \<and> email userC = toLowerCase (acc_email plex_account1)
   \<and> plex_find_user req_plex plex_account1 [admin0, userC] = Some userC
   \<and> plexId userB = Some (acc_id plex_account0)
   \<and> plex_find_user req_plex plex_account0 [admin0, userB] = Some userB
   \<and> plex_find_user req_plex plex_account0 [admin0, userC] = None"
proof -
  have s: "req_user req_plex = None" by (simp add: req_plex_def req0_def)
  have lc: "toLowerCase (acc_email plex_account1) = CHR 0xE9 # ''@x.com''"
    by (simp add: plex_account1_def toLowerCase_def lower_char_def)
  have lc0: "toLowerCase (acc_email plex_account0) = ''a@x.com''"
    by (simp add: plex_account0_def toLowerCase_def lower_char_def)
  have a1: "plexId admin0 \<noteq> Some (acc_id plex_account1)"
      "email admin0 \<noteq> toLowerCase (acc_email plex_account1)"
    unfolding lc by (simp_all add: admin0_def new_User_def)
  have c1: "plexId userC \<noteq> Some (acc_id plex_account1)"
      "email userC = toLowerCase (acc_email plex_account1)"
    unfolding lc by (simp_all add: userC_def new_User_def)
  have a0: "plexId admin0 \<noteq> Some (acc_id plex_account0)"
      "email admin0 \<noteq> toLowerCase (acc_email plex_account0)"
    unfolding lc0 by (simp_all add: admin0_def new_User_def)
  have c0: "plexId userC \<noteq> Some (acc_id plex_account0)"
      "email userC \<noteq> toLowerCase (acc_email plex_account0)"
    unfolding lc0 by (simp_all add: userC_def new_User_def)
  have b0: "plexId userB = Some (acc_id plex_account0)"
    by (simp add: userB_def plex_account0_def new_User_def)
  note t = plex_lookup_first_row[OF s]
  have "[admin0, userC] = [admin0] @ userC # []
        \<and> (plexId userC = Some (acc_id plex_account1)
            \<or> email userC = toLowerCase (acc_email plex_account1))
        \<and> (\<forall>v\<in>set [admin0]. plexId v \<noteq> Some (acc_id plex_account1)
                              \<and> email v \<noteq> toLowerCase (acc_email plex_account1))"
    using a1 c1 by simp
  then have r1: "plex_find_user req_plex plex_account1 [admin0, userC] = Some userC"
    using t[of plex_account1 "[admin0, userC]" userC] by blast
  have "[admin0, userB] = [admin0] @ userB # []
        \<and> (plexId userB = Some (acc_id plex_account0)
            \<or> email userB = toLowerCase (acc_email plex_account0))
        \<and> (\<forall>v\<in>set [admin0]. plexId v \<noteq> Some (acc_id plex_account0)
                              \<and> email v \<noteq> toLowerCase (acc_email plex_account0))"
    using a0 b0 by simp
  then have r2: "plex_find_user req_plex plex_account0 [admin0, userB] = Some userB"
    using t[of plex_account0 "[admin0, userB]" userB] by blast
  have "\<forall>v\<in>set [admin0, userC]. plexId v \<noteq> Some (acc_id plex_account0)
                              \<and> email v \<noteq> toLowerCase (acc_email plex_account0)"
    using a0 c0 by simp
  then have r3: "plex_find_user req_plex plex_account0 [admin0, userC] = None"
    using t[of plex_account0 "[admin0, userC]" userC] by blast
  show ?thesis using s lc a1 c1 r1 b0 r2 r3 by simp
qed

text \<open>
  C7 as stated fails: the second row matches the account's provider id, the first row
  only its email, and the first row is the one resolved, by the lookup and by the
  route.
\<close>

theorem plex_lookup_priority_counterexample:
  "plexId userB = Some (acc_id plex_account0)
   \<and> plexId userA \<noteq> Some (acc_id plex_account0)
   \<and> email userA = toLowerCase (acc_email plex_account0)
   \<and> plex_find_user req_plex plex_account0 [userA, userB] = Some userA
   \<and> map_option user_id (user_of (fst (plex_route env1 req_plex
        \<lparr>the_settings = settings0, userRepository = [userA, userB], session_userId = None\<rparr>)))
       = Some 1"
  by (simp add: env1_def env0_def plex_account0_def jf_account0_def req_plex_def req0_def
      settings0_def userA_def userB_def new_User_def lookup_defs plex_route_def Let_def
      signed_in_def)

section \<open>Jellyfin sign-in\<close>

lemma jellyfin_route_login:
  assumes "jellyfin_reaches_login e req w account"
  shows "jellyfin_route e req w =
     (let s = the_settings w; tbl = userRepository w;
          deviceId = jellyfin_deviceId e (or_empty (body_username req)) tbl;
          host = jellyfinHost s req
      in case jellyfin_find_user req account tbl of
           Some u \<Rightarrow>
             (let u' = jellyfin_refresh host deviceId account u in
              signed_in u' (save u' tbl) (w\<lparr>the_settings := jellyfin_configure req account s\<rparr>))
         | None \<Rightarrow>
             if \<not> newPlexLogin (main s) then (Next 403 msg_access_denied, w)
             else if \<not> truthy (body_email req) then (Next 406 ''CREDENTIAL_ERROR_ADD_EMAIL'', w)
             else
               (let n = jellyfin_new_user (or_empty (body_email req)) host deviceId
                          account (defaultPermissions (main s))
                in signed_in (insert_row n tbl) (save_new n tbl) w))"
  using assms unfolding jellyfin_reaches_login_def jellyfin_route_def Let_def
  by (auto simp: jellyfin_catch_def split: option.splits)

lemma jellyfin_changes_only_on_200:
  "snd (jellyfin_route e req w) = w \<or> status_of (fst (jellyfin_route e req w)) = 200"
  by (simp add: jellyfin_route_def Let_def signed_in_def split: option.split sum.split)

lemma connect_hostname_configure:
  "hostname (jellyfin s) \<noteq> [] \<or> truthy (body_hostname req) \<Longrightarrow>
   connect_hostname (jellyfin_configure req account s) req = connect_hostname s req"
  by (cases "body_hostname req") (auto simp: connect_hostname_def jellyfin_configure_def)

lemma jellyfinHost_configure:
  "hostname (jellyfin s) \<noteq> [] \<or> truthy (body_hostname req) \<Longrightarrow>
   jellyfinHost (jellyfin_configure req account s) req = jellyfinHost s req"
  using connect_hostname_configure[of s req account]
  by (simp add: jellyfinHost_def) (simp add: jellyfin_configure_def)

lemma hostname_configure:
  "hostname (jellyfin s) \<noteq> [] \<or> truthy (body_hostname req) \<Longrightarrow>
   hostname (jellyfin (jellyfin_configure req account s)) \<noteq> [] \<or> truthy (body_hostname req)"
  by (auto simp: jellyfin_configure_def)

lemma refresh_fields:
  "user_id (jellyfin_refresh h d account u) = user_id u"
  "avatar (jellyfin_refresh h d account u) = jellyfin_avatar h account"
  "jellyfinUsername (jellyfin_refresh h d account u) = Some (Name (User account))"
  by (simp_all add: jellyfin_refresh_def Let_def)

lemma refresh_userId:
  "jellyfinUserId u = Some (Id (User account)) \<Longrightarrow>
   jellyfinUserId (jellyfin_refresh h d account u) = Some (Id (User account))"
  by (simp add: jellyfin_refresh_def Let_def)

lemma jellyfin_gate_fail:
  "\<not> truthy (body_username req)
   \<or> (hostname (jellyfin (the_settings w)) = [] \<and> \<not> truthy (body_hostname req))
   \<or> findOneBy_id 1 (userRepository w) = None \<Longrightarrow>
   status_of (fst (jellyfin_route e req w)) = 500"
  by (auto simp: jellyfin_route_def Let_def jellyfin_catch_def)

lemma jellyfin_200_gates:
  assumes "status_of (fst (jellyfin_route e req w)) = 200"
  shows "truthy (body_username req)
   \<and> (hostname (jellyfin (the_settings w)) \<noteq> [] \<or> truthy (body_hostname req))
   \<and> findOneBy_id 1 (userRepository w) \<noteq> None"
proof (rule ccontr)
  assume "\<not> ?thesis"
  then have "status_of (fst (jellyfin_route e req w)) = 500"
    by (intro jellyfin_gate_fail) blast
  with assms show False by simp
qed

lemma jellyfin_second_login:
  assumes r: "jellyfin_reaches_login e req w account"
      and s: "req_user req = None"
      and f: "getOne (\<lambda>u. jellyfinUserId u = Some (Id (User account))) (userRepository w) = Some u"
  shows "\<exists>u2. fst (jellyfin_route e req w) = Res 200 (UserJson u2)
            \<and> user_id u2 = user_id u
            \<and> avatar u2 = jellyfin_avatar (jellyfinHost (the_settings w) req) account
            \<and> jellyfinUsername u2 = Some (Name (User account))
            \<and> findOneBy_id (user_id u2) (userRepository (snd (jellyfin_route e req w))) = Some u2"
proof -
  let ?tbl = "userRepository w"
  let ?u2 = "jellyfin_refresh (jellyfinHost (the_settings w) req)
               (jellyfin_deviceId e (or_empty (body_username req)) ?tbl) account u"
  have fu: "jellyfin_find_user req account ?tbl = Some u"
    using s f by (simp add: jellyfin_find_user_def)
  have route: "jellyfin_route e req w =
      signed_in ?u2 (save ?u2 ?tbl) (w\<lparr>the_settings := jellyfin_configure req account (the_settings w)\<rparr>)"
    by (simp add: jellyfin_route_login[OF r] Let_def fu)
  obtain x where x: "find (\<lambda>v. user_id v = user_id u) ?tbl = Some x"
    using f find_member_id unfolding getOne_def by blast
  have "find (\<lambda>v. user_id v = user_id u) (save ?u2 ?tbl) = Some ?u2"
  proof (rule find_save[OF x])
    show "user_id ?u2 = user_id u" by (simp add: refresh_fields)
    show "user_id ?u2 = user_id x" using find_holds[OF x] by (simp add: refresh_fields)
  qed
  then have "findOneBy_id (user_id ?u2) (userRepository (snd (jellyfin_route e req w))) = Some ?u2"
    by (simp add: route signed_in_def findOneBy_id_def getOne_def refresh_fields)
  then show ?thesis
    by (intro exI[of _ ?u2]) (simp add: route signed_in_def refresh_fields)
qed

text \<open>
  C5: a Jellyfin login whose provider authentication succeeds, for which no local
  user is matched and new sign-ins are enabled, and which carries no email, is
  answered with 406 \<open>CREDENTIAL_ERROR_ADD_EMAIL\<close>, and nothing is changed: no user
  is created.
\<close>

theorem jellyfin_add_email:
  assumes "jellyfin_reaches_login e req w account"
      and "jellyfin_find_user req account (userRepository w) = None"
      and "newPlexLogin (main (the_settings w))"
      and "\<not> truthy (body_email req)"
  shows "jellyfin_route e req w = (Next 406 ''CREDENTIAL_ERROR_ADD_EMAIL'', w)"
  using assms(2-) by (simp add: jellyfin_route_login[OF assms(1)] Let_def)

theorem jellyfin_add_email_witness:
  "jellyfin_reaches_login env1 req_bob world0 jf_account0
   \<and> jellyfin_find_user req_bob jf_account0 (userRepository world0) = None
   \<and> newPlexLogin (main (the_settings world0))
   \<and> \<not> truthy (body_email req_bob)
   \<and> jellyfin_route env1 req_bob world0 = (Next 406 ''CREDENTIAL_ERROR_ADD_EMAIL'', world0)"
proof -
  have j: "jellyfin_reaches_login env1 req_bob world0 jf_account0"
    by (simp add: jellyfin_reaches_login_def env1_def env0_def plex_account0_def
        jf_account0_def req_bob_def req0_def world0_def settings0_def admin0_def new_User_def
        lookup_defs)
  have f: "jellyfin_find_user req_bob jf_account0 (userRepository world0) = None"
    by (simp add: env1_def env0_def plex_account0_def jf_account0_def req_bob_def req0_def
        world0_def settings0_def admin0_def new_User_def lookup_defs)
  have n: "newPlexLogin (main (the_settings world0))"
    by (simp add: env1_def env0_def plex_account0_def jf_account0_def req_bob_def req0_def
        world0_def settings0_def admin0_def new_User_def)
  have m: "\<not> truthy (body_email req_bob)"
    by (simp add: env1_def env0_def plex_account0_def jf_account0_def req_bob_def req0_def
        world0_def settings0_def admin0_def new_User_def)
  show ?thesis
    using jellyfin_add_email[OF j f n m] j f n m by blast
qed

text \<open>
  C6, as the code has it: when no host is configured and the request supplies one, a
  Jellyfin login that resolves an existing local user succeeds and writes the
  supplied host and the server id the provider reports into the settings; a login
  that resolves no local user, also one that creates a user, leaves the settings as
  they were.
\<close>

theorem jellyfin_initial_configuration:
  assumes "jellyfin_reaches_login e req w account"
      and "hostname (jellyfin (the_settings w)) = []"
      and "truthy (body_hostname req)"
  shows "(jellyfin_find_user req account (userRepository w) \<noteq> None \<longrightarrow>
            status_of (fst (jellyfin_route e req w)) = 200
            \<and> the_settings (snd (jellyfin_route e req w)) =
                (the_settings w)\<lparr>jellyfin := (jellyfin (the_settings w))
                   \<lparr>hostname := or_empty (body_hostname req),
                    serverId := ServerId (User account)\<rparr>\<rparr>)
       \<and> (jellyfin_find_user req account (userRepository w) = None \<longrightarrow>
            the_settings (snd (jellyfin_route e req w)) = the_settings w)"
  using assms(2,3)
  by (auto simp: jellyfin_route_login[OF assms(1)] Let_def signed_in_def jellyfin_configure_def)

theorem jellyfin_initial_configuration_witness:
  "jellyfin_reaches_login env1 (req_setup\<lparr>req_user := Some 1\<rparr>) world_unconfigured jf_account0
   \<and> hostname (jellyfin (the_settings world_unconfigured)) = []
   \<and> truthy (body_hostname (req_setup\<lparr>req_user := Some 1\<rparr>))
   \<and> jellyfin_find_user (req_setup\<lparr>req_user := Some 1\<rparr>) jf_account0 (userRepository world_unconfigured)
       = Some admin0
   \<and> status_of (fst (jellyfin_route env1 (req_setup\<lparr>req_user := Some 1\<rparr>) world_unconfigured)) = 200
   \<and> jellyfin (the_settings (snd (jellyfin_route env1 (req_setup\<lparr>req_user := Some 1\<rparr>) world_unconfigured)))
       = \<lparr>hostname = ''http://media.local'', externalHostname = None, serverId = ''srv-1''\<rparr>"
proof -
  let ?req = "req_setup\<lparr>req_user := Some 1\<rparr>"
  have j: "jellyfin_reaches_login env1 ?req world_unconfigured jf_account0"
    by (simp add: jellyfin_reaches_login_def env1_def env0_def plex_account0_def
        jf_account0_def req_setup_def req_bob_def req0_def world_unconfigured_def world0_def
        settings0_def admin0_def new_User_def lookup_defs)
  have h: "hostname (jellyfin (the_settings world_unconfigured)) = []"
    by (simp add: env1_def env0_def plex_account0_def jf_account0_def req_setup_def
        req_bob_def req0_def world_unconfigured_def world0_def settings0_def admin0_def
        new_User_def)
  have b: "truthy (body_hostname ?req)"
    by (simp add: env1_def env0_def plex_account0_def jf_account0_def req_setup_def
        req_bob_def req0_def world_unconfigured_def world0_def settings0_def admin0_def
        new_User_def)
  have f: "jellyfin_find_user ?req jf_account0 (userRepository world_unconfigured) = Some admin0"
    by (simp add: env1_def env0_def plex_account0_def jf_account0_def req_setup_def
        req_bob_def req0_def world_unconfigured_def world0_def settings0_def admin0_def
        new_User_def lookup_defs)
  have s: "(the_settings world_unconfigured)\<lparr>jellyfin := (jellyfin (the_settings world_unconfigured))
                   \<lparr>hostname := or_empty (body_hostname ?req),
                    serverId := ServerId (User jf_account0)\<rparr>\<rparr>
     = settings0\<lparr>jellyfin := \<lparr>hostname = ''http://media.local'', externalHostname = None,
                               serverId = ''srv-1''\<rparr>\<rparr>"
    by (simp add: env1_def env0_def plex_account0_def jf_account0_def req_setup_def
        req_bob_def req0_def world_unconfigured_def world0_def settings0_def admin0_def
        new_User_def)
  from jellyfin_initial_configuration[OF j h b] f
  have "status_of (fst (jellyfin_route env1 ?req world_unconfigured)) = 200"
    and "the_settings (snd (jellyfin_route env1 ?req world_unconfigured))
     = settings0\<lparr>jellyfin := \<lparr>hostname = ''http://media.local'', externalHostname = None,
                               serverId = ''srv-1''\<rparr>\<rparr>"
    unfolding s by simp_all
  then show ?thesis using j h b f by simp
qed

text \<open>
  C6 as stated fails: with no host configured and a host supplied, the login of an
  unmatched account with an email creates a user, is answered with 200, and leaves the
  configured host empty.
\<close>

theorem jellyfin_creation_keeps_settings_counterexample:
  "hostname (jellyfin (the_settings world_unconfigured)) = []
   \<and> body_hostname (req_setup\<lparr>body_email := Some ''bob@x.com''\<rparr>) = Some ''http://media.local''
   \<and> status_of (fst (jellyfin_route env1 (req_setup\<lparr>body_email := Some ''bob@x.com''\<rparr>)
        world_unconfigured)) = 200
   \<and> hostname (jellyfin (the_settings (snd (jellyfin_route env1
        (req_setup\<lparr>body_email := Some ''bob@x.com''\<rparr>) world_unconfigured)))) = []"
proof -
  let ?req = "req_setup\<lparr>body_email := Some ''bob@x.com''\<rparr>"
  have j: "jellyfin_reaches_login env1 ?req world_unconfigured jf_account0"
    by (simp add: jellyfin_reaches_login_def env1_def env0_def plex_account0_def
        jf_account0_def req_setup_def req_bob_def req0_def world_unconfigured_def world0_def
        settings0_def admin0_def new_User_def lookup_defs)
  have f: "jellyfin_find_user ?req jf_account0 (userRepository world_unconfigured) = None"
    by (simp add: env1_def env0_def plex_account0_def jf_account0_def req_setup_def
        req_bob_def req0_def world_unconfigured_def world0_def settings0_def admin0_def
        new_User_def lookup_defs)
  have n: "newPlexLogin (main (the_settings world_unconfigured))" "truthy (body_email ?req)"
    by (simp_all add: env1_def env0_def plex_account0_def jf_account0_def req_setup_def
        req_bob_def req0_def world_unconfigured_def world0_def settings0_def admin0_def
        new_User_def)
  have h: "hostname (jellyfin (the_settings world_unconfigured)) = []"
    "body_hostname ?req = Some ''http://media.local''"
    by (simp_all add: env1_def env0_def plex_account0_def jf_account0_def req_setup_def
        req_bob_def req0_def world_unconfigured_def world0_def settings0_def admin0_def
        new_User_def)
  have "status_of (fst (jellyfin_route env1 ?req world_unconfigured)) = 200"
    "the_settings (snd (jellyfin_route env1 ?req world_unconfigured)) = the_settings world_unconfigured"
    using f n by (simp_all add: jellyfin_route_login[OF j] Let_def signed_in_def)
  then show ?thesis using h by simp
qed

lemma jellyfin_repeated_login:
  assumes s: "req_user req = None"
      and l: "\<forall>d. jellyfin_login e (connect_hostname (the_settings w) req) d
                   (or_empty (body_username req)) (body_password req) = Inr account"
      and ok: "status_of (fst (jellyfin_route e req w)) = 200"
  shows "\<exists>u1 u2. fst (jellyfin_route e req w) = Res 200 (UserJson u1)
            \<and> fst (jellyfin_route e req (snd (jellyfin_route e req w))) = Res 200 (UserJson u2)
            \<and> user_id u2 = user_id u1
            \<and> avatar u2 = jellyfin_avatar (jellyfinHost (the_settings w) req) account
            \<and> jellyfinUsername u2 = Some (Name (User account))
            \<and> findOneBy_id (user_id u2)
                (userRepository (snd (jellyfin_route e req (snd (jellyfin_route e req w))))) = Some u2"
proof -
  let ?tbl = "userRepository w"
  let ?s = "the_settings w"
  let ?P = "\<lambda>u. jellyfinUserId u = Some (Id (User account))"
  let ?d = "jellyfin_deviceId e (or_empty (body_username req)) ?tbl"
  let ?h = "jellyfinHost ?s req"
  note g = jellyfin_200_gates[OF ok]
  from g have g1: "truthy (body_username req)"
    and g2: "hostname (jellyfin ?s) \<noteq> [] \<or> truthy (body_hostname req)"
    and g3: "findOneBy_id 1 ?tbl \<noteq> None"
    by blast+
  have r: "jellyfin_reaches_login e req w account"
    using g l by (simp add: jellyfin_reaches_login_def)
  note route = jellyfin_route_login[OF r]
  show ?thesis
  proof (cases "jellyfin_find_user req account ?tbl")
    case (Some u)
    let ?u1 = "jellyfin_refresh ?h ?d account u"
    let ?w1 = "snd (jellyfin_route e req w)"
    have r1: "jellyfin_route e req w =
        signed_in ?u1 (save ?u1 ?tbl) (w\<lparr>the_settings := jellyfin_configure req account ?s\<rparr>)"
      by (simp add: route Let_def Some)
    have fu: "find ?P ?tbl = Some u"
      using Some s by (simp add: jellyfin_find_user_def getOne_def)
    have tbl1: "userRepository ?w1 = save ?u1 ?tbl"
      and set1: "the_settings ?w1 = jellyfin_configure req account ?s"
      by (simp_all add: r1 signed_in_def)
    have f1: "getOne ?P (userRepository ?w1) = Some ?u1"
      unfolding tbl1 getOne_def
      by (rule find_save[OF fu]) (simp_all add: refresh_userId[OF find_holds[OF fu]] refresh_fields)
    have h1: "hostname (jellyfin (jellyfin_configure req account ?s)) \<noteq> []
                \<or> truthy (body_hostname req)"
      by (rule hostname_configure[OF g2])
    have c1: "connect_hostname (jellyfin_configure req account ?s) req = connect_hostname ?s req"
      by (rule connect_hostname_configure[OF g2])
    have m1: "findOneBy_id 1 (save ?u1 ?tbl) \<noteq> None"
      using g3 find_id_save[of 1 ?tbl ?u1] by (simp add: findOneBy_id_def getOne_def)
    have reach1: "jellyfin_reaches_login e req ?w1 account"
      unfolding jellyfin_reaches_login_def tbl1 set1 c1
      using g1 h1 m1 l by blast
    from jellyfin_second_login[OF reach1 s f1]
    show ?thesis
      by (auto simp: r1 signed_in_def refresh_fields set1 jellyfinHost_configure[OF g2])
  next
    case None
    have en: "newPlexLogin (main ?s) \<and> truthy (body_email req)"
    proof (rule ccontr)
      assume "\<not> (newPlexLogin (main ?s) \<and> truthy (body_email req))"
      then have "status_of (fst (jellyfin_route e req w)) \<noteq> 200"
        by (auto simp: route Let_def None)
      with ok show False by simp
    qed
    let ?n = "jellyfin_new_user (or_empty (body_email req)) ?h ?d account (defaultPermissions (main ?s))"
    let ?u1 = "insert_row ?n ?tbl"
    let ?w1 = "snd (jellyfin_route e req w)"
    have r1: "jellyfin_route e req w = signed_in ?u1 (save_new ?n ?tbl) w"
      using en by (simp add: route Let_def None)
    have fu: "find ?P ?tbl = None"
      using None s by (simp add: jellyfin_find_user_def getOne_def)
    have tbl1: "userRepository ?w1 = ?tbl @ [?u1]"
      and set1: "the_settings ?w1 = ?s"
      by (simp_all add: r1 signed_in_def save_new_def)
    have P1: "?P ?u1"
      by (simp add: insert_row_def jellyfin_new_user_def)
    have f1: "getOne ?P (userRepository ?w1) = Some ?u1"
      unfolding tbl1 getOne_def by (rule find_None_append[OF fu P1])
    have m1: "findOneBy_id 1 (?tbl @ [?u1]) \<noteq> None"
      using g3 find_id_append[of "\<lambda>v. user_id v = 1" ?tbl ?u1]
      by (simp add: findOneBy_id_def getOne_def)
    have reach1: "jellyfin_reaches_login e req ?w1 account"
      unfolding jellyfin_reaches_login_def tbl1 set1
      using g1 g2 m1 l by blast
    from jellyfin_second_login[OF reach1 s f1]
    show ?thesis
      by (auto simp: r1 signed_in_def set1)
  qed
qed

text \<open>
  C8: when a Jellyfin login without a session succeeds and the provider answers the
  same credentials with the same account, repeating the login succeeds again and
  resolves the user of the same id. After the second login the stored row of that
  user carries the account's name as its Jellyfin username, and as its avatar
  \<open>{host}/Users/{Id}/Images/Primary/?tag={PrimaryImageTag}&quality=90\<close> when the
  account has a primary image tag and \<open>/os_logo_square.png\<close> otherwise, where the host
  is the external host when one is configured, else the configured host, else the host
  of the request, without a trailing slash.
\<close>

theorem jellyfin_login_twice:
  assumes s: "req_user req = None"
      and l: "\<forall>d. jellyfin_login e (connect_hostname (the_settings w) req) d
                   (or_empty (body_username req)) (body_password req) = Inr account"
      and ok: "status_of (fst (jellyfin_route e req w)) = 200"
  shows "\<exists>u1 u2. fst (jellyfin_route e req w) = Res 200 (UserJson u1)
            \<and> fst (jellyfin_route e req (snd (jellyfin_route e req w))) = Res 200 (UserJson u2)
            \<and> user_id u2 = user_id u1
            \<and> avatar u2 =
                (let h = (if truthy (externalHostname (jellyfin (the_settings w)))
                          then or_empty (externalHostname (jellyfin (the_settings w)))
                          else if hostname (jellyfin (the_settings w)) \<noteq> []
                          then hostname (jellyfin (the_settings w))
                          else or_empty (body_hostname req));
                     host = (if h \<noteq> [] \<and> last h = CHR ''/'' then butlast h else h)
                 in if truthy (PrimaryImageTag (User account))
                    then host @ ''/Users/'' @ Id (User account) @ ''/Images/Primary/?tag=''
                           @ or_empty (PrimaryImageTag (User account)) @ ''&quality=90''
                    else ''/os_logo_square.png'')
            \<and> jellyfinUsername u2 = Some (Name (User account))
            \<and> findOneBy_id (user_id u2)
                (userRepository (snd (jellyfin_route e req (snd (jellyfin_route e req w))))) = Some u2"
proof -
  have av: "jellyfin_avatar (jellyfinHost (the_settings w) req) account =
      (let h = (if truthy (externalHostname (jellyfin (the_settings w)))
                then or_empty (externalHostname (jellyfin (the_settings w)))
                else if hostname (jellyfin (the_settings w)) \<noteq> []
                then hostname (jellyfin (the_settings w))
                else or_empty (body_hostname req));
           host = (if h \<noteq> [] \<and> last h = CHR ''/'' then butlast h else h)
       in if truthy (PrimaryImageTag (User account))
          then host @ ''/Users/'' @ Id (User account) @ ''/Images/Primary/?tag=''
                 @ or_empty (PrimaryImageTag (User account)) @ ''&quality=90''
          else ''/os_logo_square.png'')"
    by (simp add: jellyfin_avatar_def jellyfinHost_def strip_slash_def connect_hostname_def
        Let_def)
  show ?thesis
    using jellyfin_repeated_login[OF s l ok] unfolding av .
qed

theorem jellyfin_login_twice_witness:
  "req_user req_amy = None
   \<and> (\<forall>d. jellyfin_login env_amy (connect_hostname (the_settings world_external) req_amy) d
            (or_empty (body_username req_amy)) (body_password req_amy) = Inr jf_account1)
   \<and> status_of (fst (jellyfin_route env_amy req_amy world_external)) = 200
   \<and> (\<exists>u1 u2. fst (jellyfin_route env_amy req_amy world_external) = Res 200 (UserJson u1)
        \<and> fst (jellyfin_route env_amy req_amy
                 (snd (jellyfin_route env_amy req_amy world_external))) = Res 200 (UserJson u2)
        \<and> user_id u2 = user_id u1
        \<and> avatar u2 = ''https://jf.example.org/Users/xyz/Images/Primary/?tag=tag1&quality=90''
        \<and> jellyfinUsername u2 = Some ''amy''
        \<and> findOneBy_id (user_id u2)
             (userRepository (snd (jellyfin_route env_amy req_amy
                (snd (jellyfin_route env_amy req_amy world_external))))) = Some u2)"
proof -
  have s: "req_user req_amy = None" by (simp add: req_amy_def req0_def)
  have l: "\<forall>d. jellyfin_login env_amy (connect_hostname (the_settings world_external) req_amy) d
            (or_empty (body_username req_amy)) (body_password req_amy) = Inr jf_account1"
    by (simp add: env_amy_def env0_def req_amy_def req0_def)
  have j: "jellyfin_reaches_login env_amy req_amy world_external jf_account1"
    by (simp add: jellyfin_reaches_login_def env_amy_def env0_def jf_account1_def req_amy_def
        req0_def world_external_def world0_def settings0_def admin0_def new_User_def
        lookup_defs)
  have f: "jellyfin_find_user req_amy jf_account1 (userRepository world_external) = None"
    by (simp add: jf_account1_def req_amy_def req0_def world_external_def world0_def
        settings0_def admin0_def new_User_def lookup_defs)
  have n: "newPlexLogin (main (the_settings world_external))" "truthy (body_email req_amy)"
    by (simp_all add: req_amy_def req0_def world_external_def world0_def settings0_def)
  have ok: "status_of (fst (jellyfin_route env_amy req_amy world_external)) = 200"
    using f n by (simp add: jellyfin_route_login[OF j] Let_def signed_in_def)
  have a: "(let h = (if truthy (externalHostname (jellyfin (the_settings world_external)))
                then or_empty (externalHostname (jellyfin (the_settings world_external)))
                else if hostname (jellyfin (the_settings world_external)) \<noteq> []
                then hostname (jellyfin (the_settings world_external))
                else or_empty (body_hostname req_amy));
           host = (if h \<noteq> [] \<and> last h = CHR ''/'' then butlast h else h)
       in if truthy (PrimaryImageTag (User jf_account1))
          then host @ ''/Users/'' @ Id (User jf_account1) @ ''/Images/Primary/?tag=''
                 @ or_empty (PrimaryImageTag (User jf_account1)) @ ''&quality=90''
          else ''/os_logo_square.png'')
      = ''https://jf.example.org/Users/xyz/Images/Primary/?tag=tag1&quality=90''"
    by (simp add: jf_account1_def world_external_def world0_def settings0_def Let_def)
  have nm: "Name (User jf_account1) = ''amy''" by (simp add: jf_account1_def)
  from jellyfin_login_twice[OF s l ok]
  show ?thesis using s l ok unfolding a nm by blast
qed

section \<open>Denied logins and the first sign-in\<close>

text \<open>
  C2: a Plex login that the rule denies, or whose account is unmatched while new
  sign-ins are disabled, and a Jellyfin login of an unmatched account while new
  sign-ins are disabled, are answered with 403 \<open>Access denied.\<close> and leave the
  world as it was: no user is created, none is changed. More generally, whenever
  either route answers with 403 the world is unchanged.
\<close>

theorem denied_login_changes_nothing:
  "(plex_reaches_policy e req w pa mainUser
      \<and> (\<not> spec_plex_rule e pa (plex_find_user req pa (userRepository w)) mainUser
           \<or> (plex_find_user req pa (userRepository w) = None
               \<and> \<not> newPlexLogin (main (the_settings w))))
      \<longrightarrow> plex_route e req w = (Next 403 msg_access_denied, w))
   \<and> (jellyfin_reaches_login e req w ja
        \<and> jellyfin_find_user req ja (userRepository w) = None
        \<and> \<not> newPlexLogin (main (the_settings w))
      \<longrightarrow> jellyfin_route e req w = (Next 403 msg_access_denied, w))
   \<and> (status_of (fst (plex_route e req w)) = 403 \<longrightarrow> snd (plex_route e req w) = w)
   \<and> (status_of (fst (jellyfin_route e req w)) = 403 \<longrightarrow> snd (jellyfin_route e req w) = w)"
proof (intro conjI impI)
  assume a: "plex_reaches_policy e req w pa mainUser
      \<and> (\<not> spec_plex_rule e pa (plex_find_user req pa (userRepository w)) mainUser
           \<or> (plex_find_user req pa (userRepository w) = None
               \<and> \<not> newPlexLogin (main (the_settings w))))"
  then have r: "plex_reaches_policy e req w pa mainUser" by simp
  from a show "plex_route e req w = (Next 403 msg_access_denied, w)"
    by (auto simp: plex_route_policy[OF r] Let_def)
next
  assume a: "jellyfin_reaches_login e req w ja
        \<and> jellyfin_find_user req ja (userRepository w) = None
        \<and> \<not> newPlexLogin (main (the_settings w))"
  then have r: "jellyfin_reaches_login e req w ja" by simp
  from a show "jellyfin_route e req w = (Next 403 msg_access_denied, w)"
    by (simp add: jellyfin_route_login[OF r] Let_def)
next
  assume "status_of (fst (plex_route e req w)) = 403"
  then show "snd (plex_route e req w) = w"
    using plex_changes_only_on_200[of e req w] by simp
next
  assume "status_of (fst (jellyfin_route e req w)) = 403"
  then show "snd (jellyfin_route e req w) = w"
    using jellyfin_changes_only_on_200[of e req w] by simp
qed

theorem denied_login_changes_nothing_witness:
  "plex_reaches_policy env1 (req_bob\<lparr>body_authToken := Some ''T1''\<rparr>) world_closed plex_account0 admin0
   \<and> \<not> spec_plex_rule env1 plex_account0
         (plex_find_user (req_bob\<lparr>body_authToken := Some ''T1''\<rparr>) plex_account0 (userRepository world_closed)) admin0
   \<and> jellyfin_reaches_login env1 (req_bob\<lparr>body_authToken := Some ''T1''\<rparr>) world_closed jf_account0
   \<and> jellyfin_find_user (req_bob\<lparr>body_authToken := Some ''T1''\<rparr>) jf_account0 (userRepository world_closed) = None
   \<and> \<not> newPlexLogin (main (the_settings world_closed))
   \<and> plex_route env1 (req_bob\<lparr>body_authToken := Some ''T1''\<rparr>) world_closed = (Next 403 msg_access_denied, world_closed)
   \<and> jellyfin_route env1 (req_bob\<lparr>body_authToken := Some ''T1''\<rparr>) world_closed = (Next 403 msg_access_denied, world_closed)"
proof -
  let ?req = "req_bob\<lparr>body_authToken := Some ''T1''\<rparr>"
  have p: "plex_reaches_policy env1 ?req world_closed plex_account0 admin0"
    by (simp add: plex_reaches_policy_def env1_def env0_def plex_account0_def
        jf_account0_def req_bob_def req0_def world_closed_def world0_def settings0_def
        admin0_def new_User_def lookup_defs)
  have n: "\<not> spec_plex_rule env1 plex_account0
         (plex_find_user ?req plex_account0 (userRepository world_closed)) admin0"
    by (simp add: spec_plex_rule_def env1_def env0_def plex_account0_def jf_account0_def
        req_bob_def req0_def world_closed_def world0_def settings0_def admin0_def new_User_def
        lookup_defs)
  have j: "jellyfin_reaches_login env1 ?req world_closed jf_account0"
    by (simp add: jellyfin_reaches_login_def env1_def env0_def plex_account0_def
        jf_account0_def req_bob_def req0_def world_closed_def world0_def settings0_def
        admin0_def new_User_def lookup_defs)
  have f: "jellyfin_find_user ?req jf_account0 (userRepository world_closed) = None"
    by (simp add: env1_def env0_def plex_account0_def jf_account0_def req_bob_def req0_def
        world_closed_def world0_def settings0_def admin0_def new_User_def lookup_defs)
  have c: "\<not> newPlexLogin (main (the_settings world_closed))"
    by (simp add: env1_def env0_def plex_account0_def jf_account0_def req_bob_def req0_def
        world_closed_def world0_def settings0_def admin0_def new_User_def)
  show ?thesis
    using denied_login_changes_nothing[of env1 ?req world_closed plex_account0 admin0 jf_account0]
      p n j f c by blast
qed

text \<open>
  C1, as the code has it: on an empty user table, a local sign-in that is enabled and
  carries both fields, and a Plex sign-in whose token the provider answers with an
  account, succeed with 200 and create the only user, with the id 1 and the
  permissions \<open>ADMIN\<close>. A Jellyfin sign-in on an empty table never succeeds and
  creates no user.
\<close>

theorem bootstrap_sign_in:
  assumes "userRepository w = []"
  shows "(localLogin (main (the_settings w)) \<and> truthy (body_email req) \<and> truthy (body_password req)
            \<longrightarrow> (\<exists>u. local_route e req w =
                        (Res 200 (UserJson u), w\<lparr>userRepository := [u], session_userId := Some 1\<rparr>)
                      \<and> permissions u = Permission_ADMIN e \<and> user_id u = 1))
       \<and> (truthy (body_authToken req) \<and> plextv_getUser e (or_empty (body_authToken req)) \<noteq> None
            \<longrightarrow> (\<exists>u. plex_route e req w =
                        (Res 200 (UserJson u), w\<lparr>userRepository := [u], session_userId := Some 1\<rparr>)
                      \<and> permissions u = Permission_ADMIN e \<and> user_id u = 1))
       \<and> status_of (fst (jellyfin_route e req w)) \<noteq> 200
       \<and> snd (jellyfin_route e req w) = w"
proof (intro conjI impI)
  assume g: "localLogin (main (the_settings w)) \<and> truthy (body_email req) \<and> truthy (body_password req)"
  let ?n = "setPassword e (or_empty (body_password req))
              (new_User\<lparr>email := or_empty (body_email req), permissions := Permission_ADMIN e,
                 avatar := gravatarUrl e (or_empty (body_email req))\<rparr>)"
  let ?u = "insert_row ?n []"
  have id: "user_id ?u = 1" and pl: "plexId ?u = None" and pm: "permissions ?u = Permission_ADMIN e"
    by (simp_all add: insert_row_def next_id_Nil setPassword_def new_User_def)
  have fin: "local_finish e ?u [?u] w = signed_in ?u [?u] w"
    using id pl
    by (simp add: local_finish_def local_enrich_def findOneBy_id_def getOne_def
        main_isPlexUser_def isPlexUser_def)
  have "local_route e req w = signed_in ?u [?u] w"
    using g assms fin by (simp add: local_route_def Let_def getOne_def save_new_def)
  then show "\<exists>u. local_route e req w =
                (Res 200 (UserJson u), w\<lparr>userRepository := [u], session_userId := Some 1\<rparr>)
              \<and> permissions u = Permission_ADMIN e \<and> user_id u = 1"
    using id pm by (intro exI[of _ ?u]) (simp add: signed_in_def)
next
  assume g: "truthy (body_authToken req) \<and> plextv_getUser e (or_empty (body_authToken req)) \<noteq> None"
  then obtain account where acc: "plextv_getUser e (or_empty (body_authToken req)) = Some account"
    by auto
  let ?u = "insert_row (plex_new_user account (Permission_ADMIN e)) []"
  have id: "user_id ?u = 1" and pm: "permissions ?u = Permission_ADMIN e"
    by (simp_all add: insert_row_def next_id_Nil plex_new_user_def new_User_def)
  have nf: "plex_find_user req account [] = None"
    by (simp add: plex_find_user_def findOneBy_id_def getOne_def split: option.splits)
  have "plex_route e req w = signed_in ?u [?u] w"
    using g acc assms nf by (simp add: plex_route_def Let_def save_new_def)
  then show "\<exists>u. plex_route e req w =
                (Res 200 (UserJson u), w\<lparr>userRepository := [u], session_userId := Some 1\<rparr>)
              \<and> permissions u = Permission_ADMIN e \<and> user_id u = 1"
    using id pm by (intro exI[of _ ?u]) (simp add: signed_in_def)
next
  show "status_of (fst (jellyfin_route e req w)) \<noteq> 200"
    using assms
      by (simp add: jellyfin_route_def Let_def findOneBy_id_def getOne_def
          jellyfin_catch_def)
next
  show "snd (jellyfin_route e req w) = w"
    using assms by (simp add: jellyfin_route_def Let_def findOneBy_id_def getOne_def)
qed

theorem bootstrap_sign_in_witness:
  "userRepository world_empty = []
   \<and> (\<exists>u. local_route env1 req_first world_empty =
            (Res 200 (UserJson u), world_empty\<lparr>userRepository := [u], session_userId := Some 1\<rparr>)
          \<and> permissions u = Permission_ADMIN env1 \<and> user_id u = 1)
   \<and> (\<exists>u. plex_route env1 req_first world_empty =
            (Res 200 (UserJson u), world_empty\<lparr>userRepository := [u], session_userId := Some 1\<rparr>)
          \<and> permissions u = Permission_ADMIN env1 \<and> user_id u = 1)
   \<and> status_of (fst (jellyfin_route env1 req_first world_empty)) \<noteq> 200
   \<and> snd (jellyfin_route env1 req_first world_empty) = world_empty"
proof -
  have t: "userRepository world_empty = []"
    by (simp add: env1_def env0_def plex_account0_def jf_account0_def req_first_def req0_def
        world_empty_def settings0_def)
  have l: "localLogin (main (the_settings world_empty)) \<and> truthy (body_email req_first)
           \<and> truthy (body_password req_first)"
    by (simp add: env1_def env0_def plex_account0_def jf_account0_def req_first_def req0_def
        world_empty_def settings0_def)
  have p: "truthy (body_authToken req_first)
           \<and> plextv_getUser env1 (or_empty (body_authToken req_first)) \<noteq> None"
    by (simp add: env1_def env0_def plex_account0_def jf_account0_def req_first_def req0_def
        world_empty_def settings0_def)
  show ?thesis
    using bootstrap_sign_in[OF t, of req_first env1] t l p by blast
qed

text \<open>
  C1 as stated fails for Jellyfin: on an empty table, with a host configured and
  credentials the server accepts, the answer is 500 and the table stays empty.
\<close>

theorem jellyfin_bootstrap_counterexample:
  "status_of (fst (jellyfin_route env1
      (req0\<lparr>body_username := Some ''bob'', body_password := Some ''pw'',
             body_email := Some ''bob@x.com''\<rparr>) world_empty)) = 500
   \<and> userRepository (snd (jellyfin_route env1
      (req0\<lparr>body_username := Some ''bob'', body_password := Some ''pw'',
             body_email := Some ''bob@x.com''\<rparr>) world_empty)) = []"
  by (simp add: jellyfin_route_def Let_def req0_def world_empty_def settings0_def
      findOneBy_id_def getOne_def jellyfin_catch_def)

end
